theory Spec2Isabelle
  imports Main
begin

section \<open>Data model\<close>

text \<open>
  The Go structs of package \<open>model\<close> as records. A Go \<open>*string\<close> is a pointer to a
  string variable: it is modelled as an optional address (\<open>None\<close> is \<open>nil\<close>), and the
  string variables live in a heap that maps each address to its contents. Go's \<open>==\<close> on
  two \<open>*string\<close> operands compares the addresses, never the strings they point to, so
  on this representation it is HOL's equality on \<open>strptr\<close>. Pointers to structs
  (\<open>*ShibbolethUser\<close>, \<open>*Sender\<close>, \<open>*Message\<close>) are only ever tested against
  \<open>nil\<close> and dereferenced, so they are options of the record. A slice that the code
  tests against \<open>nil\<close> is an optional list; \<open>Recipients\<close> is only measured and
  ranged over, for which a \<open>nil\<close> slice is an empty one, so it is a list. \<open>Data\<close> is a
  Go map, instants of time are integers, and \<open>Priority\<close> is never computed with.
\<close>

type_synonym addr = nat
type_synonym strptr = "addr option"
type_synonym heap = "addr \<Rightarrow> string"

record User =
  ID :: string
  Tokens :: "string list option"
  UserID :: strptr
  Topics :: "string list option"
  DateCreated :: int
  DateUpdated :: int

record ShibbolethUser =
  Uin :: strptr
  Email :: strptr
  Phone :: strptr
  Membership :: "string list option"

record Recipient =
  RecipientUserID :: strptr
  Name :: strptr
  NotificationDisabled :: bool

record Sender =
  Type :: string
  SenderUser :: "ShibbolethUser option"

record Message =
  MessageID :: strptr
  MessageDateCreated :: "int option"
  MessageDateUpdated :: "int option"
  Priority :: int
  Recipients :: "Recipient list"
  Topic :: strptr
  Subject :: string
  MessageSender :: "Sender option"
  Body :: string
  Data :: "string \<rightharpoonup> string"

section \<open>The token and topic lists of a user (core/model/user.go)\<close>

text \<open>The search loop of \<open>AddToken\<close> and \<open>AddTopic\<close>: it stops at the first equal entry.\<close>

fun existsEntry :: "string \<Rightarrow> string list \<Rightarrow> bool" where
  "existsEntry x [] = False"
| "existsEntry x (entry # rest) = (if x = entry then True else existsEntry x rest)"

text \<open>
  The copy loop of \<open>RemoveToken\<close> and \<open>RemoveTopic\<close>: every entry other than the one
  removed is appended to the new slice, which starts empty.
\<close>

fun keepOthers :: "string \<Rightarrow> string list \<Rightarrow> string list \<Rightarrow> string list" where
  "keepOthers x [] kept = kept"
| "keepOthers x (entry # rest) kept =
     keepOthers x rest (if entry \<noteq> x then kept @ [entry] else kept)"

definition AddToken :: "User \<Rightarrow> string \<Rightarrow> User" where
  "AddToken t token =
     (let tokens = (case Tokens t of None \<Rightarrow> [] | Some xs \<Rightarrow> xs);
          exists = existsEntry token tokens
      in if \<not> exists then t\<lparr>Tokens := Some (tokens @ [token])\<rparr>
         else t\<lparr>Tokens := Some tokens\<rparr>)"

definition RemoveToken :: "User \<Rightarrow> string \<Rightarrow> User" where
  "RemoveToken t token =
     (case Tokens t of
        None \<Rightarrow> t
      | Some xs \<Rightarrow> t\<lparr>Tokens := Some (keepOthers token xs [])\<rparr>)"

definition AddTopic :: "User \<Rightarrow> string \<Rightarrow> User" where
  "AddTopic t topic =
     (let topics = (case Topics t of None \<Rightarrow> [] | Some xs \<Rightarrow> xs);
          exists = existsEntry topic topics
      in if \<not> exists then t\<lparr>Topics := Some (topics @ [topic])\<rparr>
         else t\<lparr>Topics := Some topics\<rparr>)"

definition RemoveTopic :: "User \<Rightarrow> string \<Rightarrow> User" where
  "RemoveTopic t topic =
     (case Topics t of
        None \<Rightarrow> t
      | Some xs \<Rightarrow> t\<lparr>Topics := Some (keepOthers topic xs [])\<rparr>)"

section \<open>Errors, panics and the two adapters (core/services.go)\<close>

text \<open>
  A Go \<open>error\<close> value is either \<open>nil\<close> (\<open>None\<close>) or carries a message; \<open>fmt.Errorf\<close>
  builds one from its formatted text, and the adapters return errors of their own. A
  nil-pointer dereference does not return at all: it is the outcome \<open>Panics\<close>.
\<close>

datatype error = Errorf string

datatype 'a outcome = Returns 'a | Panics

text \<open>
  Every call that the service layer makes on the storage adapter (the durable store)
  or the firebase adapter (the push gateway), with the arguments it passes. Each
  operation below returns the calls it made, in the order it made them.
\<close>

datatype call =
    StorageSubscribeToTopic string strptr string
  | StorageUnsubscribeToTopic string strptr string
  | FirebaseSubscribeToTopic string string
  | FirebaseUnsubscribeToTopic string string
  | StorageCreateMessage Message
  | StorageGetFirebaseTokensByRecipients "Recipient list"
  | FirebaseSendNotificationToToken string string string "string \<rightharpoonup> string"
  | FirebaseSendNotificationToTopic string string string
  | StorageGetMessage string
  | StorageUpdateMessage Message
  | StorageDeleteUserMessage string string

text \<open>
  \<open>Application\<close> holds the two adapters. Their implementations are outside the service
  layer, so each method is a field of the record: a function from the state of the
  outside world (database and gateway together, of an arbitrary type \<open>'w\<close>) and the
  arguments to the results and the new state. \<open>CreateMessage\<close> receives the pointer to
  the draft and may write through it (the store assigns id and timestamps that way), so
  it also returns the draft as it leaves it. A call on an adapter is taken to return:
  the panics below are those of the service layer itself.
\<close>

record 'w Application =
  version :: string
  storage_SubscribeToTopic :: "'w \<Rightarrow> string \<Rightarrow> strptr \<Rightarrow> string \<Rightarrow> error option \<times> 'w"
  storage_UnsubscribeToTopic :: "'w \<Rightarrow> string \<Rightarrow> strptr \<Rightarrow> string \<Rightarrow> error option \<times> 'w"
  storage_CreateMessage :: "'w \<Rightarrow> Message \<Rightarrow> Message option \<times> error option \<times> Message \<times> 'w"
  storage_GetFirebaseTokensByRecipients ::
    "'w \<Rightarrow> Recipient list \<Rightarrow> string list \<times> error option \<times> 'w"
  storage_GetMessage :: "'w \<Rightarrow> string \<Rightarrow> Message option \<times> error option \<times> 'w"
  storage_UpdateMessage :: "'w \<Rightarrow> Message \<Rightarrow> Message option \<times> error option \<times> 'w"
  storage_DeleteUserMessage :: "'w \<Rightarrow> string \<Rightarrow> string \<Rightarrow> error option \<times> 'w"
  firebase_SubscribeToTopic :: "'w \<Rightarrow> string \<Rightarrow> string \<Rightarrow> error option \<times> 'w"
  firebase_UnsubscribeToTopic :: "'w \<Rightarrow> string \<Rightarrow> string \<Rightarrow> error option \<times> 'w"
  firebase_SendNotificationToToken ::
    "'w \<Rightarrow> string \<Rightarrow> string \<Rightarrow> string \<Rightarrow> (string \<rightharpoonup> string) \<Rightarrow> error option \<times> 'w"
  firebase_SendNotificationToTopic :: "'w \<Rightarrow> string \<Rightarrow> string \<Rightarrow> string \<Rightarrow> error option \<times> 'w"

section \<open>Subscriptions\<close>

definition subscribeToTopic ::
  "'w Application \<Rightarrow> string \<Rightarrow> ShibbolethUser option \<Rightarrow> string \<Rightarrow> 'w
     \<Rightarrow> error option \<times> call list \<times> 'w" where
  "subscribeToTopic app token user topic w =
     (case user of
        Some u \<Rightarrow>
          (case storage_SubscribeToTopic app w token (Email u) topic of
             (None, w1) \<Rightarrow>
               (case firebase_SubscribeToTopic app w1 token topic of
                  (err, w2) \<Rightarrow>
                    (err, [StorageSubscribeToTopic token (Email u) topic,
                           FirebaseSubscribeToTopic token topic], w2))
           | (Some e, w1) \<Rightarrow> (Some e, [StorageSubscribeToTopic token (Email u) topic], w1))
      | None \<Rightarrow>
          if token \<noteq> [] then
            (case firebase_SubscribeToTopic app w token topic of
               (err, w1) \<Rightarrow> (err, [FirebaseSubscribeToTopic token topic], w1))
          else (None, [], w))"

definition unsubscribeToTopic ::
  "'w Application \<Rightarrow> string \<Rightarrow> ShibbolethUser option \<Rightarrow> string \<Rightarrow> 'w
     \<Rightarrow> error option \<times> call list \<times> 'w" where
  "unsubscribeToTopic app token user topic w =
     (case user of
        Some u \<Rightarrow>
          (case storage_UnsubscribeToTopic app w token (Email u) topic of
             (None, w1) \<Rightarrow>
               (case firebase_UnsubscribeToTopic app w1 token topic of
                  (err, w2) \<Rightarrow>
                    (err, [StorageUnsubscribeToTopic token (Email u) topic,
                           FirebaseUnsubscribeToTopic token topic], w2))
           | (Some e, w1) \<Rightarrow> (Some e, [StorageUnsubscribeToTopic token (Email u) topic], w1))
      | None \<Rightarrow>
          if token \<noteq> [] then
            (case firebase_UnsubscribeToTopic app w token topic of
               (err, w1) \<Rightarrow> (err, [FirebaseUnsubscribeToTopic token topic], w1))
          else (None, [], w))"

section \<open>Messages\<close>

text \<open>
  The sender stamped on a draft (lines 80 to 84 of createMessage): a snapshot of the
  acting user that shares its three string pointers, or the system.
\<close>

definition stampSender :: "ShibbolethUser option \<Rightarrow> Message \<Rightarrow> Message" where
  "stampSender user message =
     (case user of
        Some u \<Rightarrow>
          message\<lparr>MessageSender := Some \<lparr>Type = ''user'',
            SenderUser = Some \<lparr>Uin = Uin u, Email = Email u, Phone = Phone u,
                                Membership = None\<rparr>\<rparr>\<rparr>
      | None \<Rightarrow> message\<lparr>MessageSender := Some \<lparr>Type = ''system'', SenderUser = None\<rparr>\<rparr>)"

text \<open>
  The fan-out loop over the resolved tokens. The error of a send is only printed to
  standard output, which is neither a store nor a gateway call and is left out of the
  call list; the loop goes on to the next token whatever the send returned.
\<close>

fun sendToTokens ::
  "'w Application \<Rightarrow> string list \<Rightarrow> string \<Rightarrow> string \<Rightarrow> (string \<rightharpoonup> string) \<Rightarrow> 'w
     \<Rightarrow> call list \<times> 'w" where
  "sendToTokens app [] subject body dat w = ([], w)"
| "sendToTokens app (token # rest) subject body dat w =
     (case firebase_SendNotificationToToken app w token subject body dat of
        (sendErr, w1) \<Rightarrow>
          (case sendToTokens app rest subject body dat w1 of
             (cs, w2) \<Rightarrow> (FirebaseSendNotificationToToken token subject body dat # cs, w2)))"

text \<open>
  The last two statements of createMessage: \<open>if err != nil { return nil, err }\<close> and
  \<open>return persistedMessage, err\<close>. In createMessage below, \<open>err\<close> is the error of
  \<open>CreateMessage\<close> unless the topic branch has assigned the broadcast's result to it:
  the \<open>err\<close> of the recipients branch is a new variable of that block.
\<close>

definition finish :: "Message option \<Rightarrow> error option \<Rightarrow> Message option \<times> error option" where
  "finish persistedMessage err =
     (if err \<noteq> None then (None, err) else (persistedMessage, err))"

definition createMessage ::
  "'w Application \<Rightarrow> heap \<Rightarrow> ShibbolethUser option \<Rightarrow> Message option \<Rightarrow> 'w
     \<Rightarrow> (Message option \<times> error option) outcome \<times> call list \<times> 'w" where
  "createMessage app h user msg w =
     (case msg of
        None \<Rightarrow> (Panics, [], w)
      | Some message \<Rightarrow>
          (case MessageID message of
             Some a \<Rightarrow>
               (Returns (None, Some (Errorf (''message with id ('' @ h a @ ''): is already sent''))),
                [], w)
           | None \<Rightarrow>
               (case storage_CreateMessage app w (stampSender user message) of
                  (persistedMessage, err, message', w1) \<Rightarrow>
                    if length (Recipients message') > 0 then
                      (case storage_GetFirebaseTokensByRecipients app w1 (Recipients message') of
                         (tokens, Some e, w2) \<Rightarrow>
                           (Returns (None, Some e),
                            [StorageCreateMessage (stampSender user message),
                             StorageGetFirebaseTokensByRecipients (Recipients message')], w2)
                       | (tokens, None, w2) \<Rightarrow>
                           (case sendToTokens app tokens (Subject message') (Body message')
                                   (Data message') w2 of
                              (sends, w3) \<Rightarrow>
                                (Returns (finish persistedMessage err),
                                 [StorageCreateMessage (stampSender user message),
                                  StorageGetFirebaseTokensByRecipients (Recipients message')]
                                 @ sends, w3)))
                    else
                      (case Topic message' of
                         Some a \<Rightarrow>
                           (case firebase_SendNotificationToTopic app w1 (h a)
                                   (Subject message') (Body message') of
                              (err', w2) \<Rightarrow>
                                (Returns (finish persistedMessage err'),
                                 [StorageCreateMessage (stampSender user message),
                                  FirebaseSendNotificationToTopic (h a)
                                    (Subject message') (Body message')], w2))
                       | None \<Rightarrow>
                           (Returns (finish persistedMessage err),
                            [StorageCreateMessage (stampSender user message)], w1)))))"


definition deleteUserMessage ::
  "'w Application \<Rightarrow> heap \<Rightarrow> ShibbolethUser option \<Rightarrow> string \<Rightarrow> 'w
     \<Rightarrow> error option outcome \<times> call list \<times> 'w" where
  "deleteUserMessage app h user messageID w =
     (case user of
        None \<Rightarrow> (Panics, [], w)
      | Some u \<Rightarrow>
          (case Email u of
             None \<Rightarrow> (Panics, [], w)
           | Some a \<Rightarrow>
               (case storage_DeleteUserMessage app w (h a) messageID of
                  (err, w1) \<Rightarrow> (Returns err, [StorageDeleteUserMessage (h a) messageID], w1))))"

section \<open>Visibility of a message (Message.HasUser)\<close>

text \<open>The loop over the recipients: it returns at the first entry whose \<open>UserID\<close> pointer
  is the user's \<open>Email\<close> pointer.\<close>

fun recipientLoop :: "Recipient list \<Rightarrow> strptr \<Rightarrow> bool" where
  "recipientLoop [] email = False"
| "recipientLoop (recipient # rest) email =
     (if RecipientUserID recipient = email then True else recipientLoop rest email)"

definition HasUser :: "Message option \<Rightarrow> ShibbolethUser option \<Rightarrow> bool outcome" where
  "HasUser m user =
     (case user of
        None \<Rightarrow> Returns False
      | Some u \<Rightarrow>
          (case m of
             None \<Rightarrow> Panics
           | Some message \<Rightarrow>
               if recipientLoop (Recipients message) (Email u) then Returns True
               else
                 (case MessageSender message of
                    None \<Rightarrow> Panics
                  | Some sender \<Rightarrow>
                      (case SenderUser sender of
                         None \<Rightarrow> Returns False
                       | Some creator \<Rightarrow>
                           if Email u = Email creator then Returns True else Returns False))))"

section \<open>Notions used to state the properties\<close>

text \<open>The token and topic lists of a user as plain lists: a \<open>nil\<close> slice has no entries.\<close>

definition tokenList :: "User \<Rightarrow> string list" where
  "tokenList t = (case Tokens t of None \<Rightarrow> [] | Some xs \<Rightarrow> xs)"

definition topicList :: "User \<Rightarrow> string list" where
  "topicList t = (case Topics t of None \<Rightarrow> [] | Some xs \<Rightarrow> xs)"

text \<open>
  Standing on a message, read on the strings rather than on their addresses. Two
  optional strings name the same person when both are present and hold the same text:
  an absent email identifies nobody. The user is the sender when the message was sent
  by a user with the same email, and a recipient when some recipient entry carries the
  user's email as its user id.
\<close>

definition sameText :: "heap \<Rightarrow> strptr \<Rightarrow> strptr \<Rightarrow> bool" where
  "sameText h p q =
     (case p of
        None \<Rightarrow> False
      | Some a \<Rightarrow> (case q of None \<Rightarrow> False | Some b \<Rightarrow> h a = h b))"


definition isRecipient :: "heap \<Rightarrow> Message \<Rightarrow> ShibbolethUser \<Rightarrow> bool" where
  "isRecipient h m u =
     list_ex (\<lambda>r. sameText h (RecipientUserID r) (Email u)) (Recipients m)"


section \<open>An in-memory store and gateway, and sample data\<close>

text \<open>
  A small instance of the two adapters, used to run the operations on concrete inputs.
  Its store reports \<open>writeError\<close> from every write, resolves any recipient list to the
  tokens \<open>resolved\<close> and returns \<open>found\<close> from \<open>GetMessage\<close>; its gateway rejects the
  tokens and topics listed in \<open>rejected\<close>. A message that the store persists gets the id
  held at address 4.
\<close>

record World =
  writeError :: "error option"
  rejected :: "string list"
  resolved :: "string list"
  found :: "Message option"

definition gateway :: "World \<Rightarrow> string \<Rightarrow> error option \<times> World" where
  "gateway w target =
     (if target \<in> set (rejected w) then Some (Errorf ''gateway unavailable'') else None, w)"

definition memApp :: "World Application" where
  "memApp =
     \<lparr>version = ''dev'',
      storage_SubscribeToTopic = (\<lambda>w token email topic. (writeError w, w)),
      storage_UnsubscribeToTopic = (\<lambda>w token email topic. (writeError w, w)),
      storage_CreateMessage = (\<lambda>w m.
        case writeError w of
          Some e \<Rightarrow> (None, Some e, m, w)
        | None \<Rightarrow> (Some (m\<lparr>MessageID := Some 4\<rparr>), None, m\<lparr>MessageID := Some 4\<rparr>, w)),
      storage_GetFirebaseTokensByRecipients = (\<lambda>w recipients. (resolved w, None, w)),
      storage_GetMessage = (\<lambda>w id. (found w, None, w)),
      storage_UpdateMessage = (\<lambda>w m.
        case writeError w of
          Some e \<Rightarrow> (None, Some e, w)
        | None \<Rightarrow> (Some m, None, w\<lparr>found := Some m\<rparr>)),
      storage_DeleteUserMessage = (\<lambda>w email id. (writeError w, w)),
      firebase_SubscribeToTopic = (\<lambda>w token topic. gateway w token),
      firebase_UnsubscribeToTopic = (\<lambda>w token topic. gateway w token),
      firebase_SendNotificationToToken = (\<lambda>w token subject body dat. gateway w token),
      firebase_SendNotificationToTopic = (\<lambda>w topic subject body. gateway w topic)\<rparr>"

text \<open>
  The string variables of the samples. Addresses 1 and 2 are two different variables
  that hold the same email: the copy decoded from the stored message and the copy
  decoded from the caller's credentials.
\<close>

definition memHeap :: heap where
  "memHeap a =
     (if a = 1 \<or> a = 2 then ''bob@illinois.edu''
      else if a = 3 then ''sports''
      else if a = 4 then ''m-100''
      else if a = 5 then ''ann@illinois.edu''
      else if a = 6 then ''651234567''
      else if a = 7 then ''659876543''
      else [])"

definition bob :: ShibbolethUser where
  "bob = \<lparr>Uin = None, Email = Some 2, Phone = None, Membership = None\<rparr>"

definition ann :: ShibbolethUser where
  "ann = \<lparr>Uin = None, Email = Some 5, Phone = None, Membership = None\<rparr>"

text \<open>Two users known by their UIN only: neither has an email.\<close>

definition carl :: ShibbolethUser where
  "carl = \<lparr>Uin = Some 6, Email = None, Phone = None, Membership = None\<rparr>"

definition dora :: ShibbolethUser where
  "dora = \<lparr>Uin = Some 7, Email = None, Phone = None, Membership = None\<rparr>"

definition alice :: User where
  "alice = \<lparr>ID = ''u-1'', Tokens = Some [''T1'', ''T2''], UserID = Some 1,
            Topics = Some [''sports''], DateCreated = 0, DateUpdated = 0\<rparr>"

definition draft :: Message where
  "draft = \<lparr>MessageID = None, MessageDateCreated = None, MessageDateUpdated = None,
            Priority = 0, Recipients = [], Topic = None, Subject = ''Game'',
            MessageSender = None, Body = ''Tonight'', Data = Map.empty\<rparr>"

definition toBob :: "Recipient list" where
  "toBob = [\<lparr>RecipientUserID = Some 1, Name = None, NotificationDisabled = False\<rparr>]"

text \<open>Two stored messages addressed to bob: one sent by the system, one sent by ann.\<close>

definition inbox :: Message where
  "inbox = draft\<lparr>MessageID := Some 4, Recipients := toBob,
                  MessageSender := Some \<lparr>Type = ''system'', SenderUser = None\<rparr>\<rparr>"




definition up :: World where
  "up = \<lparr>writeError = None, rejected = [], resolved = [''t1'', ''t2''], found = None\<rparr>"

definition down :: World where
  "down = up\<lparr>writeError := Some (Errorf ''store unavailable'')\<rparr>"

lemmas mem_defs = memApp_def memHeap_def gateway_def up_def down_def draft_def toBob_def
  bob_def ann_def carl_def dora_def stampSender_def finish_def

section \<open>The loops\<close>

lemma existsEntry_iff: "existsEntry x xs \<longleftrightarrow> x \<in> set xs"
  by (induction xs) auto

lemma keepOthers_filter: "keepOthers x xs kept = kept @ filter (\<lambda>entry. entry \<noteq> x) xs"
  by (induction xs arbitrary: kept) auto

lemma keepOthers_absent: "x \<notin> set xs \<Longrightarrow> keepOthers x xs [] = xs"
  by (auto simp: keepOthers_filter filter_id_conv)

lemma recipientLoop_iff:
  "recipientLoop rs email \<longleftrightarrow> (\<exists>r\<in>set rs. RecipientUserID r = email)"
  by (induction rs) auto

lemma sendToTokens_calls:
  "fst (sendToTokens app tokens subject body dat w) =
     map (\<lambda>token. FirebaseSendNotificationToToken token subject body dat) tokens"
  by (induction tokens arbitrary: w) (simp_all add: case_prod_beta)

section \<open>Token and topic lists\<close>

lemma tokenList_AddToken:
  "tokenList (AddToken t token) =
     (if token \<in> set (tokenList t) then tokenList t else tokenList t @ [token])"
  by (simp add: AddToken_def tokenList_def existsEntry_iff Let_def split: option.splits)

lemma topicList_AddTopic:
  "topicList (AddTopic t topic) =
     (if topic \<in> set (topicList t) then topicList t else topicList t @ [topic])"
  by (simp add: AddTopic_def topicList_def existsEntry_iff Let_def split: option.splits)

lemma AddToken_present: "token \<in> set (tokenList t) \<Longrightarrow> AddToken t token = t"
  by (auto simp: AddToken_def tokenList_def existsEntry_iff Let_def split: option.splits)

lemma AddTopic_present: "topic \<in> set (topicList t) \<Longrightarrow> AddTopic t topic = t"
  by (auto simp: AddTopic_def topicList_def existsEntry_iff Let_def split: option.splits)

lemma AddToken_member: "token \<in> set (tokenList (AddToken t token))"
  by (simp add: tokenList_AddToken)

lemma AddTopic_member: "topic \<in> set (topicList (AddTopic t topic))"
  by (simp add: topicList_AddTopic)

lemma tokenList_AddTopic: "tokenList (AddTopic t topic) = tokenList t"
  by (simp add: AddTopic_def tokenList_def Let_def)

text \<open>
  Claim C7. \<open>AddToken\<close> and \<open>AddTopic\<close> keep a duplicate-free list duplicate-free, leave
  the user unchanged when the element is already there, and are idempotent; registering
  the same token and topic a second time (the two additions of a subscription) changes
  nothing, so the sizes of both lists stay the same.
\<close>

theorem add_idempotent_duplicate_free:
  assumes "distinct (tokenList t)" and "distinct (topicList t)"
  shows "distinct (tokenList (AddToken t token)) \<and>
         distinct (topicList (AddTopic t topic)) \<and>
         (token \<in> set (tokenList t) \<longrightarrow> AddToken t token = t) \<and>
         (topic \<in> set (topicList t) \<longrightarrow> AddTopic t topic = t) \<and>
         AddToken (AddToken t token) token = AddToken t token \<and>
         AddTopic (AddTopic t topic) topic = AddTopic t topic \<and>
         AddTopic (AddToken (AddTopic (AddToken t token) topic) token) topic
           = AddTopic (AddToken t token) topic"
proof -
  have d1: "distinct (tokenList (AddToken t token))"
    using assms(1) by (simp add: tokenList_AddToken)
  have d2: "distinct (topicList (AddTopic t topic))"
    using assms(2) by (simp add: topicList_AddTopic)
  have i1: "AddToken (AddToken t token) token = AddToken t token" for t
    by (rule AddToken_present) (rule AddToken_member)
  have i2: "AddTopic (AddTopic t topic) topic = AddTopic t topic" for t
    by (rule AddTopic_present) (rule AddTopic_member)
  have "token \<in> set (tokenList (AddTopic (AddToken t token) topic))"
    by (simp add: tokenList_AddTopic AddToken_member)
  then have "AddToken (AddTopic (AddToken t token) topic) token = AddTopic (AddToken t token) topic"
    by (rule AddToken_present)
  then have i3: "AddTopic (AddToken (AddTopic (AddToken t token) topic) token) topic
           = AddTopic (AddToken t token) topic"
    by (simp add: i2)
  show ?thesis
    using d1 d2 i1 i2 i3 AddToken_present AddTopic_present by blast
qed

theorem add_idempotent_duplicate_free_witness:
  "distinct (tokenList alice) \<and> distinct (topicList alice) \<and>
   ''T1'' \<in> set (tokenList alice) \<and> ''sports'' \<in> set (topicList alice) \<and>
   distinct (tokenList (AddToken alice ''T1'')) \<and>
   distinct (topicList (AddTopic alice ''sports'')) \<and>
   AddToken alice ''T1'' = alice \<and> AddTopic alice ''sports'' = alice \<and>
   length (tokenList (AddToken alice ''T1'')) = 2 \<and>
   length (topicList (AddTopic alice ''sports'')) = 1"
proof -
  have h1: "distinct (tokenList alice)" by (simp add: alice_def tokenList_def)
  have h2: "distinct (topicList alice)" by (simp add: alice_def topicList_def)
  have h3: "''T1'' \<in> set (tokenList alice)" by (simp add: alice_def tokenList_def)
  have h4: "''sports'' \<in> set (topicList alice)" by (simp add: alice_def topicList_def)
  from add_idempotent_duplicate_free [OF h1 h2, of "''T1''" "''sports''"] h3 h4
  have "distinct (tokenList (AddToken alice ''T1'')) \<and>
        distinct (topicList (AddTopic alice ''sports'')) \<and>
        AddToken alice ''T1'' = alice \<and> AddTopic alice ''sports'' = alice"
    by blast
  moreover have "length (tokenList alice) = 2" "length (topicList alice) = 1"
    by (simp_all add: alice_def tokenList_def topicList_def)
  ultimately show ?thesis using h1 h2 h3 h4 by simp
qed

text \<open>
  Claim C8. Removing a token that is not among the user's tokens, or a topic that is not
  among the user's topics, leaves the user as it was. \<open>RemoveToken\<close> and \<open>RemoveTopic\<close>
  have no result and no failing branch, so nothing is reported: they are total functions
  on users.
\<close>

theorem remove_absent_is_noop:
  "(token \<notin> set (tokenList t) \<longrightarrow> RemoveToken t token = t) \<and>
   (topic \<notin> set (topicList t) \<longrightarrow> RemoveTopic t topic = t)"
  by (auto simp: RemoveToken_def RemoveTopic_def tokenList_def topicList_def keepOthers_absent
           split: option.splits)

theorem remove_absent_is_noop_witness:
  "''T9'' \<notin> set (tokenList alice) \<and> ''chess'' \<notin> set (topicList alice) \<and>
   RemoveToken alice ''T9'' = alice \<and> RemoveTopic alice ''chess'' = alice"
proof -
  have h1: "''T9'' \<notin> set (tokenList alice)" by (simp add: alice_def tokenList_def)
  have h2: "''chess'' \<notin> set (topicList alice)" by (simp add: alice_def topicList_def)
  from remove_absent_is_noop [of "''T9''" alice "''chess''"] h1 h2 show ?thesis by blast
qed

section \<open>Subscriptions: store first, then gateway\<close>

text \<open>
  Claim C5. With an identity present, \<open>subscribeToTopic\<close> and \<open>unsubscribeToTopic\<close>
  write to the store first. When the store write fails, the store's error is returned
  and the store write is the only call made: the gateway is not called. When the store
  write succeeds, the gateway is called next and its result, error or not, is what the
  caller gets; the calls made are the store write and the gateway call and nothing
  else, so a gateway failure is followed by no compensating store call: the outside
  world ends in the state that the gateway call made of the written one.
\<close>

theorem store_write_precedes_gateway_call:
  assumes "storage_SubscribeToTopic app w token (Email u) topic = (serr, w1)"
      and "firebase_SubscribeToTopic app w1 token topic = (gerr, w2)"
      and "storage_UnsubscribeToTopic app w token (Email u) topic = (serr', w1')"
      and "firebase_UnsubscribeToTopic app w1' token topic = (gerr', w2')"
  shows "(serr \<noteq> None \<longrightarrow>
            subscribeToTopic app token (Some u) topic w =
              (serr, [StorageSubscribeToTopic token (Email u) topic], w1)) \<and>
         (serr = None \<longrightarrow>
            subscribeToTopic app token (Some u) topic w =
              (gerr, [StorageSubscribeToTopic token (Email u) topic,
                      FirebaseSubscribeToTopic token topic], w2)) \<and>
         (serr' \<noteq> None \<longrightarrow>
            unsubscribeToTopic app token (Some u) topic w =
              (serr', [StorageUnsubscribeToTopic token (Email u) topic], w1')) \<and>
         (serr' = None \<longrightarrow>
            unsubscribeToTopic app token (Some u) topic w =
              (gerr', [StorageUnsubscribeToTopic token (Email u) topic,
                       FirebaseUnsubscribeToTopic token topic], w2'))"
  using assms by (auto simp: subscribeToTopic_def unsubscribeToTopic_def)

theorem store_write_precedes_gateway_call_witness:
  "subscribeToTopic memApp ''t1'' (Some bob) ''sports'' down =
     (Some (Errorf ''store unavailable''), [StorageSubscribeToTopic ''t1'' (Some 2) ''sports''], down) \<and>
   subscribeToTopic memApp ''t1'' (Some bob) ''sports'' (up\<lparr>rejected := [''t1'']\<rparr>) =
     (Some (Errorf ''gateway unavailable''),
      [StorageSubscribeToTopic ''t1'' (Some 2) ''sports'', FirebaseSubscribeToTopic ''t1'' ''sports''],
      up\<lparr>rejected := [''t1'']\<rparr>) \<and>
   unsubscribeToTopic memApp ''t1'' (Some bob) ''sports'' down =
     (Some (Errorf ''store unavailable''), [StorageUnsubscribeToTopic ''t1'' (Some 2) ''sports''], down) \<and>
   unsubscribeToTopic memApp ''t1'' (Some bob) ''sports'' (up\<lparr>rejected := [''t1'']\<rparr>) =
     (Some (Errorf ''gateway unavailable''),
      [StorageUnsubscribeToTopic ''t1'' (Some 2) ''sports'', FirebaseUnsubscribeToTopic ''t1'' ''sports''],
      up\<lparr>rejected := [''t1'']\<rparr>)"
proof -
  let ?e = "Some (Errorf ''store unavailable'')"
  let ?g = "Some (Errorf ''gateway unavailable'')"
  let ?w = "up\<lparr>rejected := [''t1'']\<rparr>"
  have s1: "storage_SubscribeToTopic memApp down ''t1'' (Email bob) ''sports'' = (?e, down)"
    by (simp add: memApp_def down_def)
  have g1: "firebase_SubscribeToTopic memApp down ''t1'' ''sports'' = (None, down)"
    by (simp add: memApp_def down_def up_def gateway_def)
  have s1': "storage_UnsubscribeToTopic memApp down ''t1'' (Email bob) ''sports'' = (?e, down)"
    by (simp add: memApp_def down_def)
  have g1': "firebase_UnsubscribeToTopic memApp down ''t1'' ''sports'' = (None, down)"
    by (simp add: memApp_def down_def up_def gateway_def)
  have s2: "storage_SubscribeToTopic memApp ?w ''t1'' (Email bob) ''sports'' = (None, ?w)"
    by (simp add: memApp_def up_def)
  have g2: "firebase_SubscribeToTopic memApp ?w ''t1'' ''sports'' = (?g, ?w)"
    by (simp add: memApp_def up_def gateway_def)
  have s2': "storage_UnsubscribeToTopic memApp ?w ''t1'' (Email bob) ''sports'' = (None, ?w)"
    by (simp add: memApp_def up_def)
  have g2': "firebase_UnsubscribeToTopic memApp ?w ''t1'' ''sports'' = (?g, ?w)"
    by (simp add: memApp_def up_def gateway_def)
  have b: "Email bob = Some 2" by (simp add: bob_def)
  from store_write_precedes_gateway_call [OF s1 g1 s1' g1']
       store_write_precedes_gateway_call [OF s2 g2 s2' g2'] b
  show ?thesis by simp
qed

text \<open>
  Claim C2 says that a call with no identity and an empty token fails with a validation
  error and makes no call. The second half holds; the first does not: neither branch of
  the function is taken, and the \<open>nil\<close> error it started with is returned. As the code
  has it: with no identity and an empty token, \<open>subscribeToTopic\<close> and
  \<open>unsubscribeToTopic\<close> make no store and no gateway call, leave the outside world as
  it is, and return no error.
\<close>

theorem subscribe_nothing_is_silent_noop:
  "subscribeToTopic app [] None topic w = (None, [], w) \<and>
   unsubscribeToTopic app [] None topic w = (None, [], w)"
  by (simp add: subscribeToTopic_def unsubscribeToTopic_def)

text \<open>The error returned for no identity and an empty token is \<open>nil\<close>, where C2 has an error.\<close>

theorem subscribe_nothing_returns_nil:
  "fst (subscribeToTopic memApp [] None ''sports'' up) = None \<and>
   fst (unsubscribeToTopic memApp [] None ''sports'' up) = None"
  by (simp add: subscribeToTopic_def unsubscribeToTopic_def)

section \<open>Creating a message\<close>

text \<open>
  Claim C6. When the draft has no id, the store has persisted it without error, the
  draft (as the persist call leaves it) has recipients and the store has resolved them
  to tokens, \<open>createMessage\<close> makes one send call for every resolved token, in order,
  whatever the earlier sends returned, and returns the persisted message with no error.
  Nothing is assumed about the gateway's \<open>SendNotificationToToken\<close>: it may fail on any
  of the tokens, in any pattern.
\<close>

theorem token_send_failures_do_not_escalate:
  assumes "MessageID message = None"
      and "storage_CreateMessage app w (stampSender user message) = (persisted, None, message', w1)"
      and "Recipients message' \<noteq> []"
      and "storage_GetFirebaseTokensByRecipients app w1 (Recipients message') = (tokens, None, w2)"
  shows "createMessage app h user (Some message) w =
           (Returns (persisted, None),
            [StorageCreateMessage (stampSender user message),
             StorageGetFirebaseTokensByRecipients (Recipients message')]
            @ map (\<lambda>token. FirebaseSendNotificationToToken token (Subject message')
                              (Body message') (Data message')) tokens,
            snd (sendToTokens app tokens (Subject message') (Body message') (Data message') w2))"
  using assms sendToTokens_calls [of app tokens "Subject message'" "Body message'" "Data message'" w2]
  by (simp add: createMessage_def finish_def case_prod_beta)

theorem token_send_failures_do_not_escalate_witness:
  "fst (firebase_SendNotificationToToken memApp (up\<lparr>rejected := [''t1'']\<rparr>) ''t1'' ''Game'' ''Tonight'' Map.empty)
     = Some (Errorf ''gateway unavailable'') \<and>
   createMessage memApp memHeap None (Some (draft\<lparr>Recipients := toBob\<rparr>)) (up\<lparr>rejected := [''t1'']\<rparr>) =
     (Returns (Some (stampSender None (draft\<lparr>Recipients := toBob\<rparr>)\<lparr>MessageID := Some 4\<rparr>), None),
      [StorageCreateMessage (stampSender None (draft\<lparr>Recipients := toBob\<rparr>)),
       StorageGetFirebaseTokensByRecipients toBob,
       FirebaseSendNotificationToToken ''t1'' ''Game'' ''Tonight'' Map.empty,
       FirebaseSendNotificationToToken ''t2'' ''Game'' ''Tonight'' Map.empty],
      up\<lparr>rejected := [''t1'']\<rparr>)"
proof -
  let ?w = "up\<lparr>rejected := [''t1'']\<rparr>"
  let ?m = "draft\<lparr>Recipients := toBob\<rparr>"
  let ?m' = "(stampSender None ?m)\<lparr>MessageID := Some 4\<rparr>"
  have h1: "MessageID ?m = None" by (simp add: draft_def)
  have h2: "storage_CreateMessage memApp ?w (stampSender None ?m) = (Some ?m', None, ?m', ?w)"
    by (simp add: memApp_def up_def)
  have h3: "Recipients ?m' \<noteq> []" by (simp add: stampSender_def toBob_def)
  have h4: "storage_GetFirebaseTokensByRecipients memApp ?w (Recipients ?m') = ([''t1'', ''t2''], None, ?w)"
    by (simp add: memApp_def up_def)
  have f: "fst (firebase_SendNotificationToToken memApp ?w ''t1'' ''Game'' ''Tonight'' Map.empty)
     = Some (Errorf ''gateway unavailable'')"
    by (simp add: memApp_def up_def gateway_def)
  from token_send_failures_do_not_escalate [OF h1 h2 h3 h4, of memHeap] f
  show ?thesis by (simp add: mem_defs)
qed

text \<open>
  For any store and gateway: when the persist call fails on a draft that carries a topic
  and no recipients, and the broadcast succeeds, the broadcast is made all the same and
  the error of the persist call is not returned.
\<close>

lemma createMessage_broadcast_replaces_persist_error:
  assumes "MessageID message = None"
      and "storage_CreateMessage app w (stampSender user message) = (persisted, Some e, message', w1)"
      and "Recipients message' = []" and "Topic message' = Some a"
      and "firebase_SendNotificationToTopic app w1 (h a) (Subject message') (Body message') = (None, w2)"
  shows "createMessage app h user (Some message) w =
           (Returns (persisted, None),
            [StorageCreateMessage (stampSender user message),
             FirebaseSendNotificationToTopic (h a) (Subject message') (Body message')], w2)"
  using assms by (simp add: createMessage_def finish_def)

text \<open>
  Claim C1 says that a failed persistence ends \<open>createMessage\<close> with that error and
  without any delivery attempt. The code does not test the error of \<open>CreateMessage\<close>
  before it fans out. With the store's writes failing, a draft with a topic is still
  broadcast, and the broadcast's \<open>nil\<close> result replaces the persistence error, so the
  call returns no message and no error; a draft with recipients is still sent to every
  resolved token before the persistence error is returned.
\<close>

theorem createMessage_delivers_after_failed_persist:
  "createMessage memApp memHeap None (Some (draft\<lparr>Topic := Some 3\<rparr>)) down =
     (Returns (None, None),
      [StorageCreateMessage (stampSender None (draft\<lparr>Topic := Some 3\<rparr>)),
       FirebaseSendNotificationToTopic ''sports'' ''Game'' ''Tonight''], down) \<and>
   createMessage memApp memHeap None (Some (draft\<lparr>Recipients := toBob\<rparr>)) down =
     (Returns (None, Some (Errorf ''store unavailable'')),
      [StorageCreateMessage (stampSender None (draft\<lparr>Recipients := toBob\<rparr>)),
       StorageGetFirebaseTokensByRecipients toBob,
       FirebaseSendNotificationToToken ''t1'' ''Game'' ''Tonight'' Map.empty,
       FirebaseSendNotificationToToken ''t2'' ''Game'' ''Tonight'' Map.empty], down)"
  by (simp add: createMessage_def mem_defs)

section \<open>Updating a message\<close>






section \<open>Removing oneself from a message\<close>

text \<open>
  Claim C10. \<open>deleteUserMessage\<close> reads \<open>*user.Email\<close> before anything else: with no
  identity, or an identity whose email is \<open>nil\<close>, it panics, having made no call and
  returned no error. With both present it cannot panic: it passes the email's text to
  the store and returns the store's result.
\<close>

theorem deleteUserMessage_panics_without_email:
  "(user = None \<or> (\<exists>u. user = Some u \<and> Email u = None)
      \<longrightarrow> deleteUserMessage app h user messageID w = (Panics, [], w)) \<and>
   (\<forall>u a. user = Some u \<and> Email u = Some a
      \<longrightarrow> deleteUserMessage app h user messageID w =
            (Returns (fst (storage_DeleteUserMessage app w (h a) messageID)),
             [StorageDeleteUserMessage (h a) messageID],
             snd (storage_DeleteUserMessage app w (h a) messageID)))"
  by (auto simp: deleteUserMessage_def split: option.splits prod.splits)

theorem deleteUserMessage_panics_without_email_witness:
  "deleteUserMessage memApp memHeap None ''m-100'' up = (Panics, [], up) \<and>
   Email (bob\<lparr>Email := None\<rparr>) = None \<and>
   deleteUserMessage memApp memHeap (Some (bob\<lparr>Email := None\<rparr>)) ''m-100'' up = (Panics, [], up) \<and>
   Email bob = Some 2 \<and>
   deleteUserMessage memApp memHeap (Some bob) ''m-100'' up =
     (Returns None, [StorageDeleteUserMessage ''bob@illinois.edu'' ''m-100''], up)"
proof -
  have h1: "Email (bob\<lparr>Email := None\<rparr>) = None" by simp
  have h2: "Email bob = Some 2" by (simp add: bob_def)
  from deleteUserMessage_panics_without_email [of None memApp memHeap "''m-100''" up]
       deleteUserMessage_panics_without_email [of "Some (bob\<lparr>Email := None\<rparr>)" memApp memHeap "''m-100''" up]
       deleteUserMessage_panics_without_email [of "Some bob" memApp memHeap "''m-100''" up]
       h1 h2
  show ?thesis by (simp add: memApp_def memHeap_def up_def)
qed

section \<open>Visibility\<close>

text \<open>
  What \<open>HasUser\<close> computes on a message that has a sender: whether some recipient's
  \<open>UserID\<close> pointer, or the sending user's \<open>Email\<close> pointer, is the very pointer held in
  the identity's \<open>Email\<close> field (two \<open>nil\<close> pointers count as the same).
\<close>

lemma HasUser_compares_pointers:
  "MessageSender message = Some sender \<Longrightarrow>
   HasUser (Some message) (Some u) =
     Returns ((\<exists>r\<in>set (Recipients message). RecipientUserID r = Email u) \<or>
              (\<exists>creator. SenderUser sender = Some creator \<and> Email u = Email creator))"
  by (auto simp: HasUser_def recipientLoop_iff split: option.splits)

text \<open>
  Claim C3 says that \<open>HasUser\<close> is true exactly for the sender and the recipients of the
  message. On the code a recipient is missed as soon as its user id and the identity's
  email are equal strings held in two different variables, which is the case for a
  message decoded from the store and an identity decoded from the request: bob is a
  recipient of the sample message, and \<open>HasUser\<close> returns false for him.
\<close>

theorem HasUser_misses_recipient_with_equal_email:
  "isRecipient memHeap inbox bob \<and> HasUser (Some inbox) (Some bob) = Returns False"
  by (simp add: isRecipient_def sameText_def HasUser_def inbox_def mem_defs)

text \<open>
  Claim C9. On a message whose sender is \<open>nil\<close>, for an identity whose email pointer is
  the user id of no recipient, \<open>HasUser\<close> goes past the loop and reads \<open>m.Sender.User\<close>:
  it panics and returns nothing. On a message that has a sender it never panics.
\<close>

theorem HasUser_panics_on_nil_sender:
  "(MessageSender message = None \<and> (\<forall>r\<in>set (Recipients message). RecipientUserID r \<noteq> Email u)
      \<longrightarrow> HasUser (Some message) (Some u) = Panics) \<and>
   (MessageSender message \<noteq> None \<longrightarrow> HasUser (Some message) user \<noteq> Panics)"
  by (auto simp: HasUser_def recipientLoop_iff split: option.splits)

theorem HasUser_panics_on_nil_sender_witness:
  "MessageSender (draft\<lparr>Recipients := toBob\<rparr>) = None \<and>
   list_all (\<lambda>r. RecipientUserID r \<noteq> Email ann) (Recipients (draft\<lparr>Recipients := toBob\<rparr>)) \<and>
   \<not> isRecipient memHeap (draft\<lparr>Recipients := toBob\<rparr>) ann \<and>
   HasUser (Some (draft\<lparr>Recipients := toBob\<rparr>)) (Some ann) = Panics \<and>
   MessageSender inbox \<noteq> None \<and>
   HasUser (Some inbox) (Some ann) = Returns False"
proof -
  have h1: "MessageSender (draft\<lparr>Recipients := toBob\<rparr>) = None"
    by (simp add: mem_defs)
  have h2: "\<forall>r\<in>set (Recipients (draft\<lparr>Recipients := toBob\<rparr>)). RecipientUserID r \<noteq> Email ann"
    by (simp add: mem_defs)
  have h3: "MessageSender inbox \<noteq> None"
    by (simp add: inbox_def)
  have h4: "\<not> isRecipient memHeap (draft\<lparr>Recipients := toBob\<rparr>) ann"
    by (simp add: isRecipient_def sameText_def mem_defs)
  have h5: "HasUser (Some inbox) (Some ann) = Returns False"
    by (simp add: HasUser_def inbox_def mem_defs)
  from HasUser_panics_on_nil_sender [of "draft\<lparr>Recipients := toBob\<rparr>" ann]
       HasUser_panics_on_nil_sender [of inbox _ "Some ann"] h1 h2 h3 h4 h5
  show ?thesis by (simp add: list_all_iff)
qed

end
